theory Spec2Isabelle
  imports Main "HOL-Library.Sublist"
begin

section \<open>The handlers of \<open>server.ts\<close>\<close>

subsection \<open>Results and the console\<close>

text \<open>
  A handler returns an object \<open>{content: [{type, text}]}\<close>. Both handlers write one
  line with \<open>console.log\<close> before they build their result, so a handler takes the
  console (the lines written so far, oldest first) and returns it extended.
\<close>

record content_block =
  type :: string
  "text" :: string

record tool_result =
  content :: "content_block list"

type_synonym console = "string list"

definition console_log :: "string \<Rightarrow> console \<Rightarrow> console" where
  "console_log line out = out @ [line]"

subsection \<open>\<open>resolve-library-id\<close>\<close>

record resolve_params =
  libraryName :: string

definition resolveLibraryId :: "resolve_params \<Rightarrow> console \<Rightarrow> tool_result \<times> console" where
  "resolveLibraryId params out =
     (let out' = console_log (''Resolving library name: '' @ libraryName params) out
      in (\<lparr>content = [\<lparr>type = ''text'', text = ''/nextjs/nextjs/v14''\<rparr>]\<rparr>, out'))"

subsection \<open>\<open>get-library-docs\<close>\<close>

text \<open>
  The parameter object of the handler: \<open>topic\<close> and \<open>tokens\<close> may be absent
  (\<open>undefined\<close>, here \<open>None\<close>). The handler never reads \<open>tokens\<close>, so the type of
  numbers is left open.
\<close>

record 'n docs_params =
  context7CompatibleLibraryID :: string
  topic :: "string option"
  tokens :: "'n option"

text \<open>
  \<open>params.topic || d\<close>: JavaScript's \<open>||\<close> yields its right operand when the left one
  is falsy; for a value of type \<open>string | undefined\<close> that is \<open>undefined\<close> and the empty
  string.
\<close>

definition or_else :: "string option \<Rightarrow> string \<Rightarrow> string" where
  "or_else v d = (case v of None \<Rightarrow> d | Some s \<Rightarrow> if s = [] then d else s)"

definition mockDocumentation :: "'n docs_params \<Rightarrow> string" where
  "mockDocumentation params =
     ''\<newline>      // Context7 documentation for '' @ context7CompatibleLibraryID params @
     ''\<newline>      // Topic: '' @ or_else (topic params) ''General'' @
     ''\<newline>      // Example code for a Next.js App Router page:'' @
     ''\<newline>      import { NextPage } from 'next';'' @
     ''\<newline>      const HomePage: NextPage = () => {'' @
     ''\<newline>        return <h1>Hello Context7!</h1>;'' @
     ''\<newline>      };'' @
     ''\<newline>      export default HomePage;'' @
     ''\<newline>    ''"

definition getLibraryDocs :: "'n docs_params \<Rightarrow> console \<Rightarrow> tool_result \<times> console" where
  "getLibraryDocs params out =
     (let out' = console_log (''Fetching docs for: '' @ context7CompatibleLibraryID params @
                              '' with topic: '' @ or_else (topic params) ''none'') out
      in (\<lparr>content = [\<lparr>type = ''text'', text = mockDocumentation params\<rparr>]\<rparr>, out'))"

section \<open>Registration, lookup and validation\<close>

text \<open>
  \<open>server.ts\<close> registers both handlers with \<open>server.tool(name, description, schema,
  handler)\<close>, where the schema is written with \<open>z.string()\<close>, \<open>z.number()\<close>,
  \<open>.optional()\<close> and \<open>.describe(...)\<close>. The registry behind \<open>server.tool\<close> and the
  validator behind \<open>z\<close> are imported, not written in \<open>server.ts\<close>; what they do is
  taken from section 4.1 of the specification. The arguments of a call arrive as a JSON
  object, a list of names and values.
\<close>

datatype 'n json =
    JNull
  | JBool bool
  | JNumber 'n
  | JString string
  | JArray "'n json list"
  | JObject "(string \<times> 'n json) list"

type_synonym 'n raw_params = "(string \<times> 'n json) list"

fun is_string :: "'n json \<Rightarrow> bool" where
  "is_string (JString s) = True"
| "is_string _ = False"

text \<open>
  Modelled from the spec: the errors of the registry, \<open>DuplicateOperationError\<close>,
  \<open>UnknownOperationError\<close> and \<open>ValidationError{field, reason}\<close>, the reason being a
  missing required field or a type mismatch. The imported toolkit that raises them is
  not in \<open>server.ts\<close>.
\<close>

datatype reason = MissingRequired | TypeMismatch

datatype registry_error =
    DuplicateOperationError string
  | UnknownOperationError string
  | ValidationError string reason

type_synonym ('n, 'a) schema = "'n json option \<Rightarrow> reason + 'a"

text \<open>
  Modelled from the spec: \<open>z.string()\<close> of the imported validator, a required string. It
  reads the value found under the name of the field (\<open>None\<close> when the name is absent).
\<close>

fun z_string :: "('n, string) schema" where
  "z_string None = Inl MissingRequired"
| "z_string (Some (JString s)) = Inr s"
| "z_string (Some _) = Inl TypeMismatch"

text \<open>Modelled from the spec: \<open>z.number()\<close> of the imported validator, a required number.\<close>

fun z_number :: "('n, 'n) schema" where
  "z_number None = Inl MissingRequired"
| "z_number (Some (JNumber n)) = Inr n"
| "z_number (Some _) = Inl TypeMismatch"

text \<open>
  Modelled from the spec: \<open>.optional()\<close> of the imported validator; an absent value
  passes, a present one is checked as before.
\<close>

fun optional :: "('n, 'a) schema \<Rightarrow> ('n, 'a option) schema" where
  "optional z None = Inr None"
| "optional z (Some v) = (case z (Some v) of Inl r \<Rightarrow> Inl r | Inr a \<Rightarrow> Inr (Some a))"

text \<open>
  Modelled from the spec: \<open>.describe(text)\<close> of the imported validator; the description
  is documentation and changes nothing in what is accepted.
\<close>

definition describe :: "('n, 'a) schema \<Rightarrow> string \<Rightarrow> ('n, 'a) schema" where
  "describe z d = z"

text \<open>
  Modelled from the spec: the step of \<open>validate\<close> for one field of the imported
  registry; a field that does not pass gives \<open>ValidationError{field, reason}\<close>.
\<close>

definition field :: "string \<Rightarrow> ('n, 'a) schema \<Rightarrow> 'n raw_params \<Rightarrow> registry_error + 'a" where
  "field f z raw = (case z (map_of raw f) of Inl r \<Rightarrow> Inl (ValidationError f r) | Inr a \<Rightarrow> Inr a)"

text \<open>
  Modelled from the spec: the fields of a schema are validated one after the other by the
  imported registry, and the first error ends the validation.
\<close>

definition and_then :: "registry_error + 'a \<Rightarrow> ('a \<Rightarrow> registry_error + 'b) \<Rightarrow> registry_error + 'b" where
  "and_then r k = (case r of Inl e \<Rightarrow> Inl e | Inr a \<Rightarrow> k a)"

text \<open>
  The two parameter schemas, field by field as \<open>server.ts\<close> writes them; each yields the
  parameter object its handler is typed with.
\<close>

definition resolveLibraryId_schema :: "'n raw_params \<Rightarrow> registry_error + resolve_params" where
  "resolveLibraryId_schema raw =
     and_then (field ''libraryName''
        (describe z_string ''The name of the library to resolve (e.g., 'React' or 'Next.js')'') raw)
     (\<lambda>n. Inr \<lparr>libraryName = n\<rparr>)"

definition getLibraryDocs_schema :: "'n raw_params \<Rightarrow> registry_error + 'n docs_params" where
  "getLibraryDocs_schema raw =
     and_then (field ''context7CompatibleLibraryID''
        (describe z_string ''The unique ID for the library (e.g., '/nextjs/nextjs/v14')'') raw)
     (\<lambda>i. and_then (field ''topic''
        (describe (optional z_string) ''An optional topic to focus the search on (e.g., 'routing')'') raw)
     (\<lambda>t. and_then (field ''tokens''
        (describe (optional z_number) ''An optional limit on the number of tokens to return'') raw)
     (\<lambda>k. Inr \<lparr>context7CompatibleLibraryID = i, topic = t, tokens = k\<rparr>)))"

text \<open>
  An operation of the registry: its name, its description, and its handler behind its
  schema.
\<close>

record 'n operation =
  name :: string
  description :: string
  run :: "'n raw_params \<Rightarrow> console \<Rightarrow> (registry_error + tool_result) \<times> console"

text \<open>
  Modelled from the spec: a call of an operation in the imported registry validates the
  raw parameters first; the handler runs only on parameters that passed, and its result
  is passed on as it is.
\<close>

definition guarded ::
  "('n raw_params \<Rightarrow> registry_error + 'p) \<Rightarrow> ('p \<Rightarrow> console \<Rightarrow> tool_result \<times> console) \<Rightarrow>
   'n raw_params \<Rightarrow> console \<Rightarrow> (registry_error + tool_result) \<times> console" where
  "guarded validate handler raw out =
     (case validate raw of
        Inl e \<Rightarrow> (Inl e, out)
      | Inr params \<Rightarrow> (case handler params out of (r, out') \<Rightarrow> (Inr r, out')))"

text \<open>
  Modelled from the spec: \<open>register(descriptor, handler)\<close> of the imported registry,
  which \<open>server.ts\<close> calls as \<open>server.tool\<close>; it fails with
  \<open>DuplicateOperationError\<close> when the name is taken.
\<close>

definition tool ::
  "string \<Rightarrow> string \<Rightarrow> ('n raw_params \<Rightarrow> registry_error + 'p) \<Rightarrow>
   ('p \<Rightarrow> console \<Rightarrow> tool_result \<times> console) \<Rightarrow> 'n operation list \<Rightarrow>
   registry_error + 'n operation list" where
  "tool n d validate handler registry =
     (if n \<in> set (map name registry) then Inl (DuplicateOperationError n)
      else Inr (registry @ [\<lparr>name = n, description = d, run = guarded validate handler\<rparr>]))"

text \<open>
  Modelled from the spec: \<open>resolve(name)\<close> of the imported registry; it fails with
  \<open>UnknownOperationError\<close> when no operation has the name.
\<close>

fun resolve :: "'n operation list \<Rightarrow> string \<Rightarrow> registry_error + 'n operation" where
  "resolve [] n = Inl (UnknownOperationError n)"
| "resolve (op # ops) n = (if name op = n then Inr op else resolve ops n)"

text \<open>The registry of \<open>server.ts\<close>: the two registrations, in their order.\<close>

definition server :: "registry_error + 'n operation list" where
  "server =
     and_then (tool ''resolve-library-id''
        ''Resolves a general library name into a Context7-compatible ID''
        resolveLibraryId_schema resolveLibraryId [])
     (tool ''get-library-docs''
        ''Fetches up-to-date documentation for a library using its Context7-compatible ID''
        getLibraryDocs_schema getLibraryDocs)"

text \<open>
  Modelled from the spec: the dispatch of a call by the imported registry, which resolves
  the operation by its name and runs it on the raw parameters.
\<close>

definition call_tool ::
  "string \<Rightarrow> 'n raw_params \<Rightarrow> console \<Rightarrow> (registry_error + tool_result) \<times> console" where
  "call_tool n raw out =
     (case and_then server (\<lambda>registry. resolve registry n) of
        Inl e \<Rightarrow> (Inl e, out)
      | Inr op \<Rightarrow> run op raw out)"

section \<open>Start-up\<close>

text \<open>
  \<open>const PORT = process.env.PORT || 3000\<close>: an environment variable is a string when it
  is set, and the empty string is falsy.
\<close>

datatype port = PortString string | PortNumber nat

definition PORT :: "(string \<rightharpoonup> string) \<Rightarrow> port" where
  "PORT env = (case env ''PORT'' of
                 None \<Rightarrow> PortNumber 3000
               | Some s \<Rightarrow> if s = [] then PortNumber 3000 else PortString s)"

definition digit :: "nat \<Rightarrow> char" where
  "digit d = ''0123456789'' ! d"

fun decimal :: "nat \<Rightarrow> string" where
  "decimal n = (if n < 10 then [digit n] else decimal (n div 10) @ [digit (n mod 10)])"

declare decimal.simps [simp del]

fun port_string :: "port \<Rightarrow> string" where
  "port_string (PortString s) = s"
| "port_string (PortNumber n) = decimal n"

text \<open>
  What the process does at start-up, as the sequence of its observable steps. The two
  calls into the imported libraries are inputs of the model: \<open>connect\<close> is how the promise
  of \<open>server.connect(transport)\<close> settles (\<open>None\<close>: fulfilled, \<open>Some error\<close>:
  rejected), \<open>listen\<close> is whether the call \<open>app.listen(PORT, ...)\<close> returns (\<open>None\<close>)
  or throws (\<open>Some error\<close>). A \<open>.catch\<close> that follows a \<open>.then\<close> also receives what
  the \<open>.then\<close> callback throws.
\<close>

datatype 'e event =
    Connected
  | Listening port
  | ConsoleLog string
  | ConsoleError string 'e
  | Exit nat

definition setupServer :: "'e option \<Rightarrow> 'e + 'e event list" where
  "setupServer connect = (case connect of None \<Rightarrow> Inr [Connected] | Some error \<Rightarrow> Inl error)"

definition on_rejected :: "'e \<Rightarrow> 'e event list" where
  "on_rejected error = [ConsoleError ''Failed to set up the server:'' error, Exit 1]"

definition on_fulfilled :: "port \<Rightarrow> 'e option \<Rightarrow> 'e + 'e event list" where
  "on_fulfilled p listen =
     (case listen of
        None \<Rightarrow> Inr [Listening p, ConsoleLog (''MCP Context7 Server listening on port '' @ port_string p)]
      | Some error \<Rightarrow> Inl error)"

definition start :: "(string \<rightharpoonup> string) \<Rightarrow> 'e option \<Rightarrow> 'e option \<Rightarrow> 'e event list" where
  "start env connect listen =
     (case setupServer connect of
        Inl error \<Rightarrow> on_rejected error
      | Inr steps \<Rightarrow>
          (case on_fulfilled (PORT env) listen of
             Inl error \<Rightarrow> steps @ on_rejected error
           | Inr steps' \<Rightarrow> steps @ steps'))"

text \<open>
  A trace respects the start-up order when every \<open>Listening\<close> step has a \<open>Connected\<close> step
  before it; the flag says whether \<open>Connected\<close> has been seen.
\<close>

fun listens_connected :: "bool \<Rightarrow> 'e event list \<Rightarrow> bool" where
  "listens_connected c [] = True"
| "listens_connected c (Connected # es) = listens_connected True es"
| "listens_connected c (Listening p # es) = (c \<and> listens_connected c es)"
| "listens_connected c (_ # es) = listens_connected c es"

fun listening :: "'e event \<Rightarrow> bool" where
  "listening (Listening p) = True"
| "listening _ = False"

section \<open>The endpoint \<open>/mcp\<close>\<close>

subsection \<open>Requests and the body middleware\<close>

text \<open>
  A request to \<open>/mcp\<close> carries a method, a content type and possibly a body. The body is
  kept as what a JSON body reader makes of it: nothing to read (neither a length nor a
  transfer encoding is announced), a charset or content encoding the reader does not
  support, more bytes than the reader accepts, no bytes at all, text that decodes to a
  value, or text that does not decode. \<open>body\<close> is \<open>req.body\<close>, unset (\<open>None\<close>) on the
  incoming request.
\<close>

datatype http_method = GET | POST | DELETE

datatype 'j raw_body =
    NoBody
  | Unsupported
  | TooLarge
  | EmptyBody
  | WellFormed 'j
  | Malformed string

record 'j request =
  "method" :: http_method
  is_json :: bool
  raw :: "'j raw_body"
  body :: "'j option"

text \<open>
  \<open>app.use(express.json())\<close> is registered before the routes, so the middleware sees
  every request of every method. It is imported, and an input of the application below:
  given the request, a body middleware either passes an error that carries an HTTP status
  to the error handling of the framework (\<open>Inl\<close>), or goes on to the routes with a value
  in \<open>req.body\<close> (\<open>Inr\<close>).
\<close>

type_synonym 'j middleware = "'j request \<Rightarrow> nat + 'j option"

text \<open>
  \<open>express.json()\<close> with its default options, to run the application on. It goes on
  without reading when there is nothing to read or the content type is not JSON. Otherwise
  it refuses what it cannot read with status 415, what is too large with 413, and text
  that does not decode with 400; being strict, it also refuses with 400 a decoded value
  that is neither an object nor an array. No bytes at all give the empty object. Where it
  does not read, \<open>req.body\<close> is shown as it came in (the first major version of the
  middleware puts an empty object there instead).
\<close>

fun object_or_array :: "'n json \<Rightarrow> bool" where
  "object_or_array (JObject fs) = True"
| "object_or_array (JArray vs) = True"
| "object_or_array _ = False"

definition express_json :: "('n json) middleware" where
  "express_json req =
     (if raw req = NoBody \<or> \<not> is_json req then Inr (body req)
      else case raw req of
             NoBody \<Rightarrow> Inr (body req)
           | Unsupported \<Rightarrow> Inl 415
           | TooLarge \<Rightarrow> Inl 413
           | EmptyBody \<Rightarrow> Inr (Some (JObject []))
           | WellFormed j \<Rightarrow> if object_or_array j then Inr (Some j) else Inl 400
           | Malformed s \<Rightarrow> Inl 400)"

subsection \<open>Responses\<close>

datatype jsonrpc_id = IdNull | IdNumber int | IdString string

record jsonrpc_error =
  code :: int
  message :: string

record error_envelope =
  jsonrpc :: string
  error :: jsonrpc_error
  id' :: jsonrpc_id

text \<open>
  The response object \<open>res\<close>: whether the head has gone out, the status, and what has
  been written to the body, in order. A piece of the body is an envelope serialised by
  \<open>server.ts\<close> (\<open>res.json(obj)\<close>, \<open>JSON.stringify(obj)\<close>), something the transport
  wrote, or the error page of the framework.
\<close>

datatype 't chunk = Json error_envelope | Transport 't | ErrorPage

record 't response =
  headersSent :: bool
  statusCode :: nat
  written :: "'t chunk list"

definition fresh :: "'t response" where
  "fresh = \<lparr>headersSent = False, statusCode = 200, written = []\<rparr>"

definition status :: "nat \<Rightarrow> 't response \<Rightarrow> 't response" where
  "status c res = res\<lparr>statusCode := c\<rparr>"

definition json :: "error_envelope \<Rightarrow> 't response \<Rightarrow> 't response" where
  "json obj res = res\<lparr>headersSent := True, written := written res @ [Json obj]\<rparr>"

definition writeHead :: "nat \<Rightarrow> 't response \<Rightarrow> 't response" where
  "writeHead c res = res\<lparr>headersSent := True, statusCode := c\<rparr>"

definition end' :: "'t chunk \<Rightarrow> 't response \<Rightarrow> 't response" where
  "end' data res = res\<lparr>headersSent := True, written := written res @ [data]\<rparr>"

definition JSON_stringify :: "error_envelope \<Rightarrow> 't chunk" where
  "JSON_stringify obj = Json obj"

subsection \<open>The routes\<close>

text \<open>
  The routes write to the console: a line, a line with \<open>req.body\<close>, or (with
  \<open>console.error\<close>) a line with the fault that was caught.
\<close>

datatype ('j, 'e) logged =
    Log string
  | LogBody string "'j option"
  | LogError string 'e

text \<open>
  \<open>transport.handleRequest(req, res, req.body)\<close> belongs to the imported transport and
  is an input of the model: given the request, the response object and the decoded body
  it returns the response object as it has left it (\<open>Inr\<close>), or throws a fault, leaving
  the response object in some state (\<open>Inl\<close>).
\<close>

type_synonym ('j, 't, 'e) transport =
  "'j request \<Rightarrow> 't response \<Rightarrow> 'j option \<Rightarrow> ('e \<times> 't response) + 't response"

definition internal_server_error :: error_envelope where
  "internal_server_error =
     \<lparr>jsonrpc = ''2.0'', error = \<lparr>code = - 32603, message = ''Internal server error''\<rparr>, id' = IdNull\<rparr>"

definition method_not_allowed :: error_envelope where
  "method_not_allowed =
     \<lparr>jsonrpc = ''2.0'', error = \<lparr>code = - 32000, message = ''Method not allowed.''\<rparr>, id' = IdNull\<rparr>"

definition post_mcp ::
  "('j, 't, 'e) transport \<Rightarrow> 'j request \<Rightarrow> 't response \<Rightarrow> ('j, 'e) logged list \<Rightarrow>
   't response \<times> ('j, 'e) logged list" where
  "post_mcp handleRequest req res out =
     (let out1 = out @ [LogBody ''Received MCP request:'' (body req)]
      in case handleRequest req res (body req) of
           Inr res' \<Rightarrow> (res', out1)
         | Inl (fault, res') \<Rightarrow>
             (let out2 = out1 @ [LogError ''Error handling MCP request:'' fault]
              in if \<not> headersSent res'
                 then (json internal_server_error (status 500 res'), out2)
                 else (res', out2)))"

definition get_mcp ::
  "'j request \<Rightarrow> 't response \<Rightarrow> ('j, 'e) logged list \<Rightarrow> 't response \<times> ('j, 'e) logged list" where
  "get_mcp req res out =
     (let out1 = out @ [Log ''Received GET MCP request'']
      in (end' (JSON_stringify method_not_allowed) (writeHead 405 res), out1))"

definition delete_mcp ::
  "'j request \<Rightarrow> 't response \<Rightarrow> ('j, 'e) logged list \<Rightarrow> 't response \<times> ('j, 'e) logged list" where
  "delete_mcp req res out =
     (let out1 = out @ [Log ''Received DELETE MCP request'']
      in (end' (JSON_stringify method_not_allowed) (writeHead 405 res), out1))"

text \<open>
  The application: the middleware first, then the route of the method. \<open>server.ts\<close>
  registers no error handler of its own, so an error of the middleware is answered by
  the framework: the status of the error and an error page, and no route runs.
\<close>

definition app ::
  "'j middleware \<Rightarrow> ('j, 't, 'e) transport \<Rightarrow> 'j request \<Rightarrow> ('j, 'e) logged list \<Rightarrow>
   't response \<times> ('j, 'e) logged list" where
  "app middleware handleRequest req out =
     (case middleware req of
        Inl st \<Rightarrow> (end' ErrorPage (writeHead st fresh), out)
      | Inr b \<Rightarrow>
          (case method req of
             POST \<Rightarrow> post_mcp handleRequest (req\<lparr>body := b\<rparr>) fresh out
           | GET \<Rightarrow> get_mcp (req\<lparr>body := b\<rparr>) fresh out
           | DELETE \<Rightarrow> delete_mcp (req\<lparr>body := b\<rparr>) fresh out))"

subsection \<open>Sample transports\<close>

text \<open>
  Three transports to run the application on: one that answers, one that throws before
  it has written anything, and one that throws after the head has gone out.
\<close>

definition answering :: "(int json, string, string) transport" where
  "answering req res b = Inr (end' (Transport ''ok'') (writeHead 200 res))"

definition failing_early :: "(int json, string, string) transport" where
  "failing_early req res b = Inl (''fault'', res)"

definition failing_late :: "(int json, string, string) transport" where
  "failing_late req res b = Inl (''fault'', writeHead 200 res)"

section \<open>Properties of the handlers\<close>

text \<open>
  C1. Every call of \<open>resolve-library-id\<close>, whatever its \<open>libraryName\<close> (non-empty or
  not), returns a result, not an error (the handler has no failing path), whose content is
  exactly one text block, and the text of that block is the fixed placeholder
  \<open>/nextjs/nextjs/v14\<close>.
\<close>

theorem resolveLibraryId_constant:
  "fst (resolveLibraryId params out) =
     \<lparr>content = [\<lparr>type = ''text'', text = ''/nextjs/nextjs/v14''\<rparr>]\<rparr>"
  by (simp add: resolveLibraryId_def Let_def)

lemma text_of_getLibraryDocs:
  "fst (getLibraryDocs params out) =
     \<lparr>content = [\<lparr>type = ''text'', text = mockDocumentation params\<rparr>]\<rparr>"
  by (simp add: getLibraryDocs_def Let_def)

lemma mockDocumentation_has_id:
  "sublist (context7CompatibleLibraryID params) (mockDocumentation params)"
  unfolding mockDocumentation_def by (rule sublist_appendI)

lemma mockDocumentation_has_topic:
  "sublist (''Topic: '' @ or_else (topic params) ''General'') (mockDocumentation params)"
proof -
  have "mockDocumentation params =
      (''\<newline>      // Context7 documentation for '' @ context7CompatibleLibraryID params @
       ''\<newline>      // '')
      @ (''Topic: '' @ or_else (topic params) ''General'')
      @ (''\<newline>      // Example code for a Next.js App Router page:'' @
         ''\<newline>      import { NextPage } from 'next';'' @
         ''\<newline>      const HomePage: NextPage = () => {'' @
         ''\<newline>        return <h1>Hello Context7!</h1>;'' @
         ''\<newline>      };'' @
         ''\<newline>      export default HomePage;'' @
         ''\<newline>    '')"
    by (simp add: mockDocumentation_def)
  then show ?thesis
    by (metis sublist_appendI)
qed

lemma mockDocumentation_nonempty: "mockDocumentation params \<noteq> []"
  by (simp add: mockDocumentation_def)

text \<open>
  C2. A call of \<open>get-library-docs\<close> that supplies \<open>context7CompatibleLibraryID\<close> and
  neither \<open>topic\<close> nor \<open>tokens\<close> returns a single text block; its text is not empty and
  contains the identifier.
\<close>

theorem getLibraryDocs_contains_id:
  "\<exists>t. fst (getLibraryDocs \<lparr>context7CompatibleLibraryID = i, topic = None, tokens = None\<rparr> out)
         = \<lparr>content = [\<lparr>type = ''text'', text = t\<rparr>]\<rparr> \<and> t \<noteq> [] \<and> sublist i t"
  using mockDocumentation_has_id
          [of "\<lparr>context7CompatibleLibraryID = i, topic = None, tokens = None\<rparr>"]
  by (simp add: text_of_getLibraryDocs mockDocumentation_nonempty)

text \<open>
  C3. The call of \<open>get-library-docs\<close> with \<open>context7CompatibleLibraryID\<close>
  \<open>/nextjs/nextjs/v14\<close> and \<open>topic\<close> \<open>routing\<close> returns a text block that contains both
  the identifier and the word \<open>routing\<close>.
\<close>

theorem getLibraryDocs_nextjs_routing:
  "\<exists>t. fst (getLibraryDocs \<lparr>context7CompatibleLibraryID = ''/nextjs/nextjs/v14'',
                               topic = Some ''routing'', tokens = k\<rparr> out)
         = \<lparr>content = [\<lparr>type = ''text'', text = t\<rparr>]\<rparr>
       \<and> sublist ''/nextjs/nextjs/v14'' t \<and> sublist ''routing'' t"
proof -
  let ?p = "\<lparr>context7CompatibleLibraryID = ''/nextjs/nextjs/v14'',
             topic = Some ''routing'', tokens = k\<rparr>"
  have a: "sublist ''/nextjs/nextjs/v14'' (mockDocumentation ?p)"
    using mockDocumentation_has_id [of ?p] by simp
  have "sublist (''Topic: '' @ ''routing'') (mockDocumentation ?p)"
    using mockDocumentation_has_topic [of ?p] by (simp add: or_else_def)
  then have b: "sublist ''routing'' (mockDocumentation ?p)"
    using sublist_append_leftI sublist_order.order_trans by blast
  show ?thesis using a b by (simp add: text_of_getLibraryDocs)
qed

text \<open>
  C9. \<open>tokens\<close> has no effect: two calls of \<open>get-library-docs\<close> that differ only in
  \<open>tokens\<close> (absent, or any number) return the same content, and write the same line to
  the console.
\<close>

theorem getLibraryDocs_ignores_tokens:
  "getLibraryDocs (params\<lparr>tokens := k\<rparr>) out = getLibraryDocs (params\<lparr>tokens := k'\<rparr>) out"
  by (simp add: getLibraryDocs_def mockDocumentation_def)

text \<open>
  C10. When \<open>topic\<close> is absent the returned text contains \<open>Topic: General\<close>, and the
  empty string as \<open>topic\<close> gives the same answer as an absent \<open>topic\<close>: an empty topic is
  not echoed, \<open>General\<close> stands in its place.
\<close>

theorem getLibraryDocs_topic_General:
  "(\<exists>t. fst (getLibraryDocs (params\<lparr>topic := None\<rparr>) out)
           = \<lparr>content = [\<lparr>type = ''text'', text = t\<rparr>]\<rparr>
        \<and> sublist ''Topic: General'' t)
   \<and> getLibraryDocs (params\<lparr>topic := Some []\<rparr>) out
       = getLibraryDocs (params\<lparr>topic := None\<rparr>) out"
proof -
  have "sublist ''Topic: General'' (mockDocumentation (params\<lparr>topic := None\<rparr>))"
    using mockDocumentation_has_topic [of "params\<lparr>topic := None\<rparr>"]
    by (simp add: or_else_def)
  moreover have "getLibraryDocs (params\<lparr>topic := Some []\<rparr>) out
                 = getLibraryDocs (params\<lparr>topic := None\<rparr>) out"
    by (simp add: getLibraryDocs_def mockDocumentation_def or_else_def)
  ultimately show ?thesis
    by (simp add: text_of_getLibraryDocs)
qed

section \<open>Properties of the registry\<close>

lemma server_registry:
  "(server :: registry_error + 'n operation list) =
     Inr [\<lparr>name = ''resolve-library-id'',
           description = ''Resolves a general library name into a Context7-compatible ID'',
           run = guarded resolveLibraryId_schema resolveLibraryId\<rparr>,
          \<lparr>name = ''get-library-docs'',
           description =
             ''Fetches up-to-date documentation for a library using its Context7-compatible ID'',
           run = guarded getLibraryDocs_schema getLibraryDocs\<rparr>]"
  by (simp add: server_def tool_def and_then_def)

lemma call_getLibraryDocs:
  "call_tool ''get-library-docs'' args out = guarded getLibraryDocs_schema getLibraryDocs args out"
  by (simp add: call_tool_def server_registry and_then_def)

lemma call_resolveLibraryId:
  "call_tool ''resolve-library-id'' args out =
     guarded resolveLibraryId_schema resolveLibraryId args out"
  by (simp add: call_tool_def server_registry and_then_def)

lemma z_string_mismatch: "\<not> is_string v \<Longrightarrow> z_string (Some v) = Inl TypeMismatch"
  by (cases v) simp_all

text \<open>Calls with the required parameter reach their handler.\<close>

lemma call_getLibraryDocs_valid:
  "call_tool ''get-library-docs'' [(''context7CompatibleLibraryID'', JString i :: 'n json)] out =
     (case getLibraryDocs
             \<lparr>context7CompatibleLibraryID = i, topic = None, tokens = None :: 'n option\<rparr> out of
        (r, out') \<Rightarrow> (Inr r, out'))"
  by (simp add: call_getLibraryDocs guarded_def getLibraryDocs_schema_def and_then_def field_def
      describe_def)

lemma call_resolveLibraryId_valid:
  "call_tool ''resolve-library-id'' [(''libraryName'', JString n)] out =
     (Inr \<lparr>content = [\<lparr>type = ''text'', text = ''/nextjs/nextjs/v14''\<rparr>]\<rparr>,
      out @ [''Resolving library name: '' @ n])"
  by (simp add: call_resolveLibraryId guarded_def resolveLibraryId_schema_def and_then_def
      field_def describe_def resolveLibraryId_def console_log_def)

text \<open>
  C4. A call of \<open>get-library-docs\<close> without \<open>context7CompatibleLibraryID\<close> yields a
  \<open>ValidationError\<close> for that field and no result, and so does a call that gives it a
  value that is not a string. The handler has not run: the console is as it was.
\<close>

theorem getLibraryDocs_requires_id:
  "(map_of args ''context7CompatibleLibraryID'' = None \<longrightarrow>
      call_tool ''get-library-docs'' args out =
        (Inl (ValidationError ''context7CompatibleLibraryID'' MissingRequired), out))
   \<and> (map_of args ''context7CompatibleLibraryID'' = Some v \<and> \<not> is_string v \<longrightarrow>
      call_tool ''get-library-docs'' args out =
        (Inl (ValidationError ''context7CompatibleLibraryID'' TypeMismatch), out))"
  by (simp add: call_getLibraryDocs guarded_def getLibraryDocs_schema_def and_then_def field_def
      describe_def z_string_mismatch)

theorem getLibraryDocs_requires_id_witness:
  "call_tool ''get-library-docs'' [(''topic'', JString ''routing'')] [] =
        (Inl (ValidationError ''context7CompatibleLibraryID'' MissingRequired), [])
   \<and> call_tool ''get-library-docs'' [(''context7CompatibleLibraryID'', JNumber (14::int))] [] =
        (Inl (ValidationError ''context7CompatibleLibraryID'' TypeMismatch), [])"
  using getLibraryDocs_requires_id [of "[(''topic'', JString ''routing'')]" "[]" "JNull"]
        getLibraryDocs_requires_id
          [of "[(''context7CompatibleLibraryID'', JNumber (14::int))]" "[]" "JNumber 14"]
  by simp

section \<open>Properties of the start-up\<close>

lemma decimal_3000: "decimal 3000 = ''3000''"
  by code_simp

lemma start_listens:
  "start env None None =
     [Connected, Listening (PORT env),
      ConsoleLog (''MCP Context7 Server listening on port '' @ port_string (PORT env))]"
  by (simp add: start_def setupServer_def on_fulfilled_def)

text \<open>
  C8. The port is chosen by the one environment variable \<open>PORT\<close>: it is 3000 when
  \<open>PORT\<close> is unset (and when it is set to the empty string), it is the value of \<open>PORT\<close>
  when that is set to anything else, so two environments that agree on \<open>PORT\<close> give the
  same port; a start-up that succeeds listens on that port, and no start-up listens on
  another one.
\<close>

theorem PORT_default_3000:
  "(env ''PORT'' = None \<longrightarrow> PORT env = PortNumber 3000)
   \<and> (env ''PORT'' = Some s \<and> s \<noteq> [] \<longrightarrow> PORT env = PortString s)
   \<and> (env ''PORT'' = Some [] \<longrightarrow> PORT env = PortNumber 3000)
   \<and> (env ''PORT'' = env' ''PORT'' \<longrightarrow> PORT env = PORT env')
   \<and> (connect = None \<and> listen = None \<longrightarrow>
        Listening (PORT env) \<in> set (start env connect listen))
   \<and> (Listening p \<in> set (start env connect listen) \<longrightarrow> p = PORT env)"
  by (auto simp add: PORT_def start_def setupServer_def on_fulfilled_def on_rejected_def
      split: option.splits)

theorem PORT_default_3000_witness:
  "PORT Map.empty = PortNumber 3000
   \<and> PORT [''PORT'' \<mapsto> ''8080''] = PortString ''8080''
   \<and> PORT [''PORT'' \<mapsto> []] = PortNumber 3000
   \<and> PORT [''PORT'' \<mapsto> ''8080'', ''HOME'' \<mapsto> ''/root''] = PORT [''PORT'' \<mapsto> ''8080'']
   \<and> Listening (PortString ''8080'')
       \<in> set (start [''PORT'' \<mapsto> ''8080''] (None :: string option) None)"
  using PORT_default_3000
          [where env = Map.empty and env' = Map.empty and s = "''8080''"
             and p = "PortNumber 3000" and connect = "None :: string option" and listen = None]
        PORT_default_3000
          [where env = "[''PORT'' \<mapsto> ''8080'', ''HOME'' \<mapsto> ''/root'']"
             and env' = "[''PORT'' \<mapsto> ''8080'']" and s = "''8080''"
             and p = "PortString ''8080''" and connect = "None :: string option"
             and listen = None]
        PORT_default_3000
          [where env = "[''PORT'' \<mapsto> []]" and env' = "[''PORT'' \<mapsto> []]"
             and s = "''8080''" and p = "PortNumber 3000"
             and connect = "None :: string option" and listen = None]
  by (simp add: PORT_def start_def setupServer_def on_fulfilled_def)

text \<open>
  C7. In every run of the start-up the process listens only after the registry has been
  connected to the transport; when the connection fails, the process writes the failure
  to the console and exits with status 1, and never listens.
\<close>

theorem start_connects_before_listening:
  "listens_connected False (start env connect listen)
   \<and> (connect = Some e \<longrightarrow>
        start env connect listen = [ConsoleError ''Failed to set up the server:'' e, Exit 1]
        \<and> \<not> list_ex listening (start env connect listen))"
  by (simp add: start_def setupServer_def on_fulfilled_def on_rejected_def split: option.splits)

theorem start_connects_before_listening_witness:
  "listens_connected False (start Map.empty (Some ''refused'') None)
   \<and> start Map.empty (Some ''refused'') None
       = [ConsoleError ''Failed to set up the server:'' ''refused'', Exit 1]
   \<and> \<not> list_ex listening (start Map.empty (Some ''refused'') None)"
  using start_connects_before_listening [of Map.empty "Some ''refused''" None "''refused''"]
  by simp

section \<open>Properties of the endpoint\<close>

lemma get_mcp_405:
  "get_mcp req fresh out =
     (\<lparr>headersSent = True, statusCode = 405,
       written = [Json \<lparr>jsonrpc = ''2.0'',
                        error = \<lparr>code = - 32000, message = ''Method not allowed.''\<rparr>,
                        id' = IdNull\<rparr>]\<rparr>,
      out @ [Log ''Received GET MCP request''])"
  by (simp add: get_mcp_def end'_def writeHead_def fresh_def JSON_stringify_def
      method_not_allowed_def)

lemma delete_mcp_405:
  "delete_mcp req fresh out =
     (\<lparr>headersSent = True, statusCode = 405,
       written = [Json \<lparr>jsonrpc = ''2.0'',
                        error = \<lparr>code = - 32000, message = ''Method not allowed.''\<rparr>,
                        id' = IdNull\<rparr>]\<rparr>,
      out @ [Log ''Received DELETE MCP request''])"
  by (simp add: delete_mcp_def end'_def writeHead_def fresh_def JSON_stringify_def
      method_not_allowed_def)

text \<open>
  The route of \<open>POST\<close> on its own, for any request and any state of the response: a fault
  of the transport is caught, and answered only when the head has not been sent.
\<close>

lemma post_mcp_fault:
  "handleRequest req res (body req) = Inl (fault, res') \<Longrightarrow>
   post_mcp handleRequest req res out =
     (if headersSent res' then res'
      else res'\<lparr>headersSent := True, statusCode := 500,
                written := written res' @
                  [Json \<lparr>jsonrpc = ''2.0'',
                         error = \<lparr>code = - 32603, message = ''Internal server error''\<rparr>,
                         id' = IdNull\<rparr>]\<rparr>,
      out @ [LogBody ''Received MCP request:'' (body req),
             LogError ''Error handling MCP request:'' fault])"
  by (simp add: post_mcp_def Let_def json_def status_def internal_server_error_def)

lemma post_mcp_returns:
  "handleRequest req res (body req) = Inr res' \<Longrightarrow>
   post_mcp handleRequest req res out =
     (res', out @ [LogBody ''Received MCP request:'' (body req)])"
  by (simp add: post_mcp_def Let_def)

lemma app_refused:
  "middleware req = Inl st \<Longrightarrow>
   app middleware handleRequest req out =
     (\<lparr>headersSent = True, statusCode = st, written = [ErrorPage]\<rparr>, out)"
  by (simp add: app_def end'_def writeHead_def fresh_def)

lemma express_json_malformed:
  "is_json req \<Longrightarrow> raw req = Malformed s \<Longrightarrow> express_json req = Inl 400"
  by (simp add: express_json_def)

text \<open>
  C5, as \<open>server.ts\<close> has it. Whatever the body middleware and the transport do: a \<open>GET\<close>
  or \<open>DELETE\<close> request that the middleware passes on to the routes, with whatever body,
  is answered with status 405 and the envelope with code -32000, message
  \<open>Method not allowed.\<close> and \<open>id\<close> null; the route writes its line to the console and
  does not call the transport.
\<close>

theorem method_not_allowed_past_middleware:
  assumes "middleware req = Inr b"
  shows "(method req = GET \<longrightarrow>
            app middleware handleRequest req out =
              (\<lparr>headersSent = True, statusCode = 405,
                written = [Json \<lparr>jsonrpc = ''2.0'',
                                 error = \<lparr>code = - 32000, message = ''Method not allowed.''\<rparr>,
                                 id' = IdNull\<rparr>]\<rparr>,
               out @ [Log ''Received GET MCP request'']))
       \<and> (method req = DELETE \<longrightarrow>
            app middleware handleRequest req out =
              (\<lparr>headersSent = True, statusCode = 405,
                written = [Json \<lparr>jsonrpc = ''2.0'',
                                 error = \<lparr>code = - 32000, message = ''Method not allowed.''\<rparr>,
                                 id' = IdNull\<rparr>]\<rparr>,
               out @ [Log ''Received DELETE MCP request'']))"
  using assms by (simp add: app_def get_mcp_405 delete_mcp_405)

theorem method_not_allowed_past_middleware_witness:
  "app express_json failing_early
     \<lparr>method = GET, is_json = True, raw = WellFormed (JObject [(''a'', JNumber 1)]),
      body = None\<rparr> [] =
     (\<lparr>headersSent = True, statusCode = 405,
       written = [Json \<lparr>jsonrpc = ''2.0'',
                        error = \<lparr>code = - 32000, message = ''Method not allowed.''\<rparr>,
                        id' = IdNull\<rparr>]\<rparr>,
      [Log ''Received GET MCP request''])
   \<and> app express_json answering
       \<lparr>method = DELETE, is_json = False, raw = Malformed ''{bad'', body = None\<rparr> [] =
     (\<lparr>headersSent = True, statusCode = 405,
       written = [Json \<lparr>jsonrpc = ''2.0'',
                        error = \<lparr>code = - 32000, message = ''Method not allowed.''\<rparr>,
                        id' = IdNull\<rparr>]\<rparr>,
      [Log ''Received DELETE MCP request''])"
  using method_not_allowed_past_middleware
          [where middleware = express_json
             and req = "\<lparr>method = GET, is_json = True,
                          raw = WellFormed (JObject [(''a'', JNumber 1)]), body = None\<rparr>"
             and b = "Some (JObject [(''a'', JNumber 1)])"
             and handleRequest = failing_early and out = "[]"]
        method_not_allowed_past_middleware
          [where middleware = express_json
             and req = "\<lparr>method = DELETE, is_json = False, raw = Malformed ''{bad'',
                          body = None\<rparr>"
             and b = None and handleRequest = answering and out = "[]"]
  by (simp add: express_json_def)

text \<open>
  C5, as the specification has it ("regardless of request body"), fails: a \<open>GET\<close> request
  with a JSON content type and a body that does not decode is stopped by the body
  middleware and answered with status 400, not 405.
\<close>

theorem get_malformed_body_not_405:
  "\<not> (statusCode (fst (app express_json answering
          \<lparr>method = GET, is_json = True, raw = Malformed ''{bad'', body = None\<rparr> [])) = 405)"
  by (simp add: app_def express_json_def end'_def writeHead_def fresh_def)

lemma get_malformed_body_400:
  "app express_json answering
     \<lparr>method = GET, is_json = True, raw = Malformed ''{bad'', body = None\<rparr> [] =
     (\<lparr>headersSent = True, statusCode = 400, written = [ErrorPage]\<rparr>, [])"
  by (simp add: app_refused express_json_malformed)

text \<open>
  C6, as \<open>server.ts\<close> has it. Whatever the body middleware does: when it passes a \<open>POST\<close>
  request on and the transport throws while it handles the request, the route catches the
  fault and writes it to the console; it answers with status 500 and the envelope with
  code -32603, message \<open>Internal server error\<close> and \<open>id\<close> null when the head of the
  response has not been sent, and leaves the response as it is otherwise. A request the
  middleware refuses does not reach the route: the framework answers it with the status of
  the refusal, and neither the route nor the transport runs.
\<close>

theorem post_fault_internal_error:
  "(method req = POST \<and> middleware req = Inr b
      \<and> handleRequest (req\<lparr>body := b\<rparr>) fresh b = Inl (fault, res') \<longrightarrow>
      app middleware handleRequest req out =
        (if headersSent res' then res'
         else res'\<lparr>headersSent := True, statusCode := 500,
                   written := written res' @
                     [Json \<lparr>jsonrpc = ''2.0'',
                            error = \<lparr>code = - 32603, message = ''Internal server error''\<rparr>,
                            id' = IdNull\<rparr>]\<rparr>,
         out @ [LogBody ''Received MCP request:'' b,
                LogError ''Error handling MCP request:'' fault]))
   \<and> (middleware req = Inl st \<longrightarrow>
      app middleware handleRequest req out =
        (\<lparr>headersSent = True, statusCode = st, written = [ErrorPage]\<rparr>, out))"
proof -
  have "method req = POST \<and> middleware req = Inr b
      \<and> handleRequest (req\<lparr>body := b\<rparr>) fresh b = Inl (fault, res') \<longrightarrow>
      app middleware handleRequest req out =
        (if headersSent res' then res'
         else res'\<lparr>headersSent := True, statusCode := 500,
                   written := written res' @
                     [Json \<lparr>jsonrpc = ''2.0'',
                            error = \<lparr>code = - 32603, message = ''Internal server error''\<rparr>,
                            id' = IdNull\<rparr>]\<rparr>,
         out @ [LogBody ''Received MCP request:'' b,
                LogError ''Error handling MCP request:'' fault])"
    using post_mcp_fault [of handleRequest "req\<lparr>body := b\<rparr>" fresh fault res' out]
    by (simp add: app_def)
  moreover have "middleware req = Inl st \<longrightarrow>
      app middleware handleRequest req out =
        (\<lparr>headersSent = True, statusCode = st, written = [ErrorPage]\<rparr>, out)"
    by (simp add: app_refused)
  ultimately show ?thesis
    by blast
qed

theorem post_fault_internal_error_witness:
  "app express_json failing_early
     \<lparr>method = POST, is_json = True, raw = WellFormed (JObject []), body = None\<rparr> [] =
     (\<lparr>headersSent = True, statusCode = 500,
       written = [Json \<lparr>jsonrpc = ''2.0'',
                        error = \<lparr>code = - 32603, message = ''Internal server error''\<rparr>,
                        id' = IdNull\<rparr>]\<rparr>,
      [LogBody ''Received MCP request:'' (Some (JObject [])),
       LogError ''Error handling MCP request:'' ''fault''])
   \<and> app express_json failing_late
       \<lparr>method = POST, is_json = True, raw = WellFormed (JObject []), body = None\<rparr> [] =
     (\<lparr>headersSent = True, statusCode = 200, written = []\<rparr>,
      [LogBody ''Received MCP request:'' (Some (JObject [])),
       LogError ''Error handling MCP request:'' ''fault''])
   \<and> app express_json answering
       \<lparr>method = POST, is_json = True, raw = Malformed ''{bad'', body = None\<rparr> [] =
     (\<lparr>headersSent = True, statusCode = 400, written = [ErrorPage]\<rparr>, [])"
  using post_fault_internal_error
          [where middleware = express_json
             and req = "\<lparr>method = POST, is_json = True, raw = WellFormed (JObject []),
                          body = None\<rparr>"
             and b = "Some (JObject [])"
             and handleRequest = failing_early and fault = "''fault''" and res' = fresh
             and out = "[]" and st = 400]
        post_fault_internal_error
          [where middleware = express_json
             and req = "\<lparr>method = POST, is_json = True, raw = WellFormed (JObject []),
                          body = None\<rparr>"
             and b = "Some (JObject [])"
             and handleRequest = failing_late and fault = "''fault''"
             and res' = "writeHead 200 fresh" and out = "[]" and st = 400]
        post_fault_internal_error
          [where middleware = express_json
             and req = "\<lparr>method = POST, is_json = True, raw = Malformed ''{bad'',
                          body = None\<rparr>"
             and b = None
             and handleRequest = answering and fault = "''fault''" and res' = fresh
             and out = "[]" and st = 400]
  by (simp add: express_json_def failing_early_def failing_late_def writeHead_def fresh_def)

text \<open>
  C6, as the specification has it, fails: a \<open>POST\<close> request with a JSON content type and
  a body that does not decode is not answered with status 500 and the envelope of code
  -32603.
\<close>

theorem post_malformed_body_not_internal_error:
  "\<not> (statusCode (fst (app express_json answering
           \<lparr>method = POST, is_json = True, raw = Malformed ''{bad'', body = None\<rparr> [])) = 500
       \<and> written (fst (app express_json answering
           \<lparr>method = POST, is_json = True, raw = Malformed ''{bad'', body = None\<rparr> [])) =
         [Json \<lparr>jsonrpc = ''2.0'',
                error = \<lparr>code = - 32603, message = ''Internal server error''\<rparr>,
                id' = IdNull\<rparr>])"
  by (simp add: app_def express_json_def end'_def writeHead_def fresh_def)

end
